theory Spec2Isabelle
  imports Complex_Main "HOL-Library.Sublist"
begin

section \<open>The plotting calls of create_directory_diagram.py\<close>

text \<open>
  The script is one linear pass of calls against matplotlib, followed by one \<open>print\<close>.
  What the library does with a call (rasterising, fonts, the image file) is outside the
  repository; the model records each call with the arguments the script passes, in the order
  it is issued, and lets every call either succeed or raise.

  Numbers: the script's ints and floats are modelled as exact rationals (\<open>1.5\<close> is
  \<open>3/2\<close>, true division \<open>/\<close> is division in \<open>rat\<close>); font sizes, which the
  script only passes as ints, are \<open>int\<close>. Strings: a Python \<open>str\<close> is modelled by the
  bytes of its UTF-8 encoding, so the non-ASCII glyphs of the labels are short byte lists with
  names of their own; the byte \<open>0x0A\<close> occurs in an UTF-8 string only as the newline
  character, so splitting on it is splitting the \<open>str\<close> on \<open>'\n'\<close>.
\<close>

datatype patch =
    FancyBboxPatch (patch_xy: "rat \<times> rat") (patch_width: rat) (patch_height: rat)
      (boxstyle: string) (facecolor: string) (edgecolor: string) (alpha: rat) (linewidth: rat)
  | Rectangle (patch_xy: "rat \<times> rat") (patch_width: rat) (patch_height: rat)
      (facecolor: string) (edgecolor: string) (alpha: rat) (linewidth: rat)

datatype call =
    Subplots "nat \<times> nat" nat
      \<comment> \<open>\<open>plt.subplots(figsize=(w, h), dpi=d)\<close>\<close>
  | Set_xlim rat rat
  | Set_ylim rat rat
  | Axis string
  | is_Text: Text (text_x: rat) (text_y: rat) (text_s: string) (text_fontsize: int)
      (text_kwargs: "(string \<times> string) list")
      \<comment> \<open>\<open>ax.text(x, y, s, fontsize=n, ...)\<close>: the other keyword arguments as written\<close>
  | is_Add_patch: Add_patch (patch_of: patch)
  | is_Plot: Plot "rat list" "rat list" string rat rat
      \<comment> \<open>\<open>ax.plot(xs, ys, fmt, alpha=a, linewidth=w)\<close>\<close>
  | Tight_layout
  | is_Savefig: Savefig (save_path: string) (save_dpi: nat) string string string
      \<comment> \<open>\<open>plt.savefig(path, dpi=d, bbox_inches=b, facecolor=f, edgecolor=e)\<close>\<close>
  | Close
  | is_Print: Print (message: string)

datatype error =
    NameError string
  | KeyError string
  | LibraryError string
      \<comment> \<open>whatever the plotting library or the operating system raises inside a call\<close>

text \<open>
  The module's global variables and the calls issued so far. A variable is \<open>None\<close>
  until the statement that first assigns it has run.
\<close>

record state =
  colors :: "(string \<times> string) list option"
  y_pos :: "rat option"
  stats_y :: "rat option"
  tech_y :: "rat option"
  features_y :: "rat option"
  trace :: "call list"

text \<open>
  A statement either completes in a new state or raises; the script has no \<open>try\<close>, so
  the exception, with the state it left behind, is the result of the whole run.
  The environment decides, from the calls already made and the call at hand, whether the
  library raises.
\<close>

type_synonym result = "(error \<times> state) + state"

type_synonym env = "call list \<Rightarrow> call \<Rightarrow> error option"

type_synonym stmt = "env \<Rightarrow> state \<Rightarrow> result"

definition issue :: "call \<Rightarrow> stmt" where
  "issue c env s =
     (case env (trace s) c of
        Some e \<Rightarrow> Inl (e, s)
      | None \<Rightarrow> Inr (s\<lparr>trace := trace s @ [c]\<rparr>))"

text \<open>
  Reading a global variable that is not bound raises \<open>NameError\<close>, and subscripting the
  dict with a key it does not hold raises \<open>KeyError\<close>; otherwise the value goes to the rest
  of the statement.
\<close>

definition load :: "(state \<Rightarrow> 'a option) \<Rightarrow> string \<Rightarrow> state \<Rightarrow> ('a \<Rightarrow> result) \<Rightarrow> result" where
  "load var name s k = (case var s of None \<Rightarrow> Inl (NameError name, s) | Some v \<Rightarrow> k v)"

definition subscript :: "(string \<times> string) list \<Rightarrow> string \<Rightarrow> state \<Rightarrow> (string \<Rightarrow> result) \<Rightarrow> result" where
  "subscript d key s k = (case map_of d key of None \<Rightarrow> Inl (KeyError key, s) | Some v \<Rightarrow> k v)"

subsection \<open>draw_box\<close>

text \<open>\<open>text.split('\n')\<close>: every separator ends a piece, so the result is never empty.\<close>

fun str_split :: "char \<Rightarrow> string \<Rightarrow> string list" where
  "str_split sep [] = [[]]"
| "str_split sep (c # cs) =
     (if c = sep then [] # str_split sep cs
      else (case str_split sep cs of [] \<Rightarrow> [[c]] | l # ls \<Rightarrow> (c # l) # ls))"

text \<open>The loop \<open>for i, line in enumerate(lines)\<close> of \<open>draw_box\<close>.\<close>

fun draw_box_lines :: "rat \<Rightarrow> rat \<Rightarrow> rat \<Rightarrow> rat \<Rightarrow> rat \<Rightarrow> int \<Rightarrow> (nat \<times> string) list \<Rightarrow> stmt" where
  "draw_box_lines x y width height line_height fontsize [] env s = Inr s"
| "draw_box_lines x y width height line_height fontsize ((i, line) # rest) env s =
     (let y_pos = y + height - (of_nat i + 1) * line_height;
          weight = (if i = 0 then ''bold'' else ''normal'');
          size = (if i = 0 then fontsize else fontsize - 1)
      in case issue (Text (x + width / 2) y_pos line size
                       [(''fontweight'', weight), (''ha'', ''center''), (''va'', ''center'')]) env s of
           Inl e \<Rightarrow> Inl e
         | Inr s' \<Rightarrow> draw_box_lines x y width height line_height fontsize rest env s')"

text \<open>
  \<open>draw_box(x, y, width, height, text, color, ax, fontsize=10, style='round')\<close>.
  There is one axes object, so \<open>ax\<close> is the trace of the state; every call of the script
  passes \<open>fontsize\<close> and none passes \<open>style\<close>, whose default the callers below write out.
\<close>

definition draw_box :: "rat \<Rightarrow> rat \<Rightarrow> rat \<Rightarrow> rat \<Rightarrow> string \<Rightarrow> string \<Rightarrow> int \<Rightarrow> string \<Rightarrow> stmt" where
  "draw_box x y width height text color fontsize style env s =
     (let box = (if style = ''round''
                 then FancyBboxPatch (x, y) width height ''round,pad=0.1'' color ''black'' 0.3 1.5
                 else Rectangle (x, y) width height color ''black'' 0.3 1.5)
      in case issue (Add_patch box) env s of
           Inl e \<Rightarrow> Inl e
         | Inr s' \<Rightarrow>
             (let lines = str_split (CHR 0x0A) text;
                  line_height = height / of_nat (length lines + 1)
              in draw_box_lines x y width height line_height fontsize (enumerate 0 lines) env s'))"

subsection \<open>The script, statement by statement\<close>

text \<open>The glyphs of the labels, as UTF-8 bytes, and the two escapes of the literals.\<close>

definition newline :: string where
  "newline = [CHR 0x0A]"

definition backslash :: string where
  "backslash = [CHR 0x5C]"

definition bullet :: string where
  "bullet = [CHR 0xE2, CHR 0x80, CHR 0xA2]"

definition check_mark :: string where
  "check_mark = [CHR 0xE2, CHR 0x9C, CHR 0x93]"

definition file_folder :: string where
  "file_folder = [CHR 0xF0, CHR 0x9F, CHR 0x93, CHR 0x81]"

definition robot_face :: string where
  "robot_face = [CHR 0xF0, CHR 0x9F, CHR 0xA4, CHR 0x96]"

definition file_cabinet :: string where
  "file_cabinet = [CHR 0xF0, CHR 0x9F, CHR 0x97, CHR 0x84]"

definition variation_selector :: string where
  "variation_selector = [CHR 0xEF, CHR 0xB8, CHR 0x8F]"

definition test_tube :: string where
  "test_tube = [CHR 0xF0, CHR 0x9F, CHR 0xA7, CHR 0xAA]"

definition gear :: string where
  "gear = [CHR 0xE2, CHR 0x9A, CHR 0x99]"

definition books :: string where
  "books = [CHR 0xF0, CHR 0x9F, CHR 0x93, CHR 0x9A]"

definition memo :: string where
  "memo = [CHR 0xF0, CHR 0x9F, CHR 0x93, CHR 0x9D]"

definition rocket :: string where
  "rocket = [CHR 0xF0, CHR 0x9F, CHR 0x9A, CHR 0x80]"

definition bar_chart :: string where
  "bar_chart = [CHR 0xF0, CHR 0x9F, CHR 0x93, CHR 0x8A]"

definition laptop :: string where
  "laptop = [CHR 0xF0, CHR 0x9F, CHR 0x92, CHR 0xBB]"

definition direct_hit :: string where
  "direct_hit = [CHR 0xF0, CHR 0x9F, CHR 0x8E, CHR 0xAF]"

text \<open>The labels of the boxes.\<close>

definition root_label :: string where
  "root_label =
     ''C:'' @ backslash @ ''code'' @ backslash @ ''AIGovNav'' @ backslash"

definition src_label :: string where
  "src_label =
     file_folder @ '' src/'' @ newline @ newline @ ''backend/'' @ newline @ bullet @ '' routes/'' @
     newline @ bullet @ '' services/'' @ newline @ bullet @ '' middleware/'' @ newline @ bullet
     @ '' scripts/'' @ newline @ bullet @ '' data/'' @ newline @ newline @ ''frontend/'' @
     newline @ bullet @ '' pages/'' @ newline @ bullet @ '' components/'' @ newline @ bullet @
     '' contexts/'' @ newline @ bullet @ '' services/''"

definition qa_label :: string where
  "qa_label =
     file_folder @ '' qa/'' @ newline @ newline @ ''validators/'' @ newline @ bullet @
     '' EUAIActCompliance'' @ newline @ bullet @ '' LLMGovernance'' @ newline @ bullet @
     '' PrismaIntegrity'' @ newline @ newline @ ''categories/'' @ newline @ bullet @
     '' security/'' @ newline @ bullet @ '' performance/'' @ newline @ bullet @ '' quality/'' @
     newline @ bullet @ '' architecture/'' @ newline @ bullet @ '' testing/''"

definition agents_label :: string where
  "agents_label =
     robot_face @ '' Agents'' @ newline @ newline @ ''product/'' @ newline @ bullet @
     '' user-stories'' @ newline @ bullet @ '' api-specs'' @ newline @ bullet @
     '' requirements'' @ newline @ newline @ ''engineer/'' @ newline @ bullet @
     '' swarm-config'' @ newline @ newline @ ''designer/'' @ newline @ bullet @
     '' swarm-config''"

definition prisma_label :: string where
  "prisma_label =
     file_cabinet @ variation_selector @ '' prisma/'' @ newline @ newline @ ''schema.prisma'' @
     newline @ bullet @ '' AISystem'' @ newline @ bullet @ '' User'' @ newline @ bullet @
     '' PolicyPack'' @ newline @ bullet @ '' AuditLog'' @ newline @ bullet @ '' Document''"

definition tests_label :: string where
  "tests_label =
     test_tube @ '' tests/'' @ newline @ newline @ ''unit/'' @ newline @ bullet @
     '' intake.test.ts'' @ newline @ bullet @ '' riskClassification.test.ts'' @ newline @
     newline @ ''integration/'' @ newline @ bullet @ '' auth.test.ts''"

definition config_files_label :: string where
  "config_files_label =
     gear @ variation_selector @ '' Config Files'' @ newline @ newline @ bullet @
     '' docker-compose.yml'' @ newline @ bullet @ '' package.json'' @ newline @ bullet @
     '' tsconfig.json'' @ newline @ bullet @ '' vite.config.ts'' @ newline @ bullet @
     '' vitest.config.ts'' @ newline @ bullet @ '' tailwind.config.js''"

definition reference_label :: string where
  "reference_label =
     books @ '' Reference/'' @ newline @ newline @ ''Market Research/'' @ newline @ bullet @
     '' AIGovNav Research docs'' @ newline @ bullet @ '' Images & diagrams'' @ newline @ bullet
     @ '' Conversion reports'' @ newline @ newline @ ''Reference Images'' @ newline @ bullet @
     '' AI Registry.png'' @ newline @ bullet @ '' dashboard.png'' @ newline @ bullet @
     '' swarm diagrams''"

definition documentation_label :: string where
  "documentation_label =
     memo @ '' Documentation'' @ newline @ newline @ bullet @ '' CLAUDE.md - AI instructions'' @
     newline @ bullet @ '' QA_CALIBRATION_SUMMARY.md'' @ newline @ bullet @
     '' CTO_DEMO_MATERIALS.md'' @ newline @ bullet @ '' replit-setup-guide.md'' @ newline @
     bullet @ '' setup-github.md'' @ newline @ bullet @ '' start-local.md'' @ newline @ bullet
     @ '' swarm-orchestrator.md''"

definition devops_label :: string where
  "devops_label =
     rocket @ '' DevOps'' @ newline @ newline @ ''.github/workflows/'' @ newline @ bullet @
     '' qa.yml'' @ newline @ newline @ ''.claude/'' @ newline @ bullet @
     '' settings.local.json''"

text \<open>The dict literal assigned to \<open>colors\<close>, in the order it is written.\<close>

definition palette :: "(string \<times> string) list" where
  "palette =
     [(''core'', ''#4A90E2''),
      (''qa'', ''#50E3C2''),
      (''agents'', ''#F5A623''),
      (''config'', ''#7ED321''),
      (''docs'', ''#9013FE''),
      (''db'', ''#BD10E0''),
      (''test'', ''#4A90E2'')]"

text \<open>The statements, grouped as the comments of the source group them.\<close>

text \<open>Lines 7 to 10: the figure, the extent of the axes, no axis decoration.\<close>

definition create_figure :: "stmt list" where
  "create_figure =
    [
     issue (Subplots (20, 24) 100),
     issue (Set_xlim 0 100),
     issue (Set_ylim 0 120),
     issue (Axis ''off'')
    ]"

text \<open>Lines 13 to 16: the title and the subtitle.\<close>

definition title :: "stmt list" where
  "title =
    [
     issue (Text 50 118 ''AI Governance Navigator - Directory Structure'' 24 [(''fontweight'',
       ''bold''), (''ha'', ''center'')]),
     issue (Text 50 115 ''Complete Project Architecture Overview'' 14 [(''ha'', ''center''),
       (''color'', ''gray'')])
    ]"

text \<open>Lines 19 to 27: the assignment of the palette.\<close>

definition color_scheme :: "stmt list" where
  "color_scheme =
    [
     (\<lambda>env s. Inr (s\<lparr>colors := Some palette\<rparr>))
    ]"

text \<open>Lines 54 to 58: the first value of \<open>y_pos\<close> and the box of the root path.\<close>

definition root_level :: "stmt list" where
  "root_level =
    [
     (\<lambda>env s. Inr (s\<lparr>y_pos := Some 105\<rparr>)),
     (\<lambda>env s. load y_pos ''y_pos'' s (\<lambda>y_pos_v. load colors ''colors'' s
       (\<lambda>colors_v. subscript colors_v ''config'' s (\<lambda>c. draw_box 35 y_pos_v 30
       5 root_label c 12 ''round'' env s)))),
     (\<lambda>env s. load y_pos ''y_pos'' s (\<lambda>y_pos_v. Inr (s\<lparr>y_pos := Some (y_pos_v
       - 8)\<rparr>)))
    ]"

text \<open>Lines 61 to 72: the boxes of the source tree, the validators and the agents.\<close>

definition application_sections :: "stmt list" where
  "application_sections =
    [
     (\<lambda>env s. load y_pos ''y_pos'' s (\<lambda>y_pos_v. load colors ''colors'' s
       (\<lambda>colors_v. subscript colors_v ''core'' s (\<lambda>c. draw_box 5 (y_pos_v - 25)
       28 25 src_label c 11 ''round'' env s)))),
     (\<lambda>env s. load y_pos ''y_pos'' s (\<lambda>y_pos_v. load colors ''colors'' s
       (\<lambda>colors_v. subscript colors_v ''qa'' s (\<lambda>c. draw_box 35 (y_pos_v - 25)
       28 25 qa_label c 11 ''round'' env s)))),
     (\<lambda>env s. load y_pos ''y_pos'' s (\<lambda>y_pos_v. load colors ''colors'' s
       (\<lambda>colors_v. subscript colors_v ''agents'' s (\<lambda>c. draw_box 65 (y_pos_v -
       25) 28 25 agents_label c 11 ''round'' env s)))),
     (\<lambda>env s. load y_pos ''y_pos'' s (\<lambda>y_pos_v. Inr (s\<lparr>y_pos := Some (y_pos_v
       - 30)\<rparr>)))
    ]"

text \<open>Lines 75 to 85: the boxes of the schema, the tests and the configuration files.\<close>

definition database_testing_config :: "stmt list" where
  "database_testing_config =
    [
     (\<lambda>env s. load y_pos ''y_pos'' s (\<lambda>y_pos_v. load colors ''colors'' s
       (\<lambda>colors_v. subscript colors_v ''db'' s (\<lambda>c. draw_box 5 (y_pos_v - 15)
       28 15 prisma_label c 11 ''round'' env s)))),
     (\<lambda>env s. load y_pos ''y_pos'' s (\<lambda>y_pos_v. load colors ''colors'' s
       (\<lambda>colors_v. subscript colors_v ''test'' s (\<lambda>c. draw_box 35 (y_pos_v -
       15) 28 15 tests_label c 11 ''round'' env s)))),
     (\<lambda>env s. load y_pos ''y_pos'' s (\<lambda>y_pos_v. load colors ''colors'' s
       (\<lambda>colors_v. subscript colors_v ''config'' s (\<lambda>c. draw_box 65 (y_pos_v -
       15) 28 15 config_files_label c 11 ''round'' env s)))),
     (\<lambda>env s. load y_pos ''y_pos'' s (\<lambda>y_pos_v. Inr (s\<lparr>y_pos := Some (y_pos_v
       - 20)\<rparr>)))
    ]"

text \<open>Lines 88 to 94: the boxes of the reference material and the documentation.\<close>

definition documentation_reference :: "stmt list" where
  "documentation_reference =
    [
     (\<lambda>env s. load y_pos ''y_pos'' s (\<lambda>y_pos_v. load colors ''colors'' s
       (\<lambda>colors_v. subscript colors_v ''docs'' s (\<lambda>c. draw_box 5 (y_pos_v - 15)
       42 15 reference_label c 11 ''round'' env s)))),
     (\<lambda>env s. load y_pos ''y_pos'' s (\<lambda>y_pos_v. load colors ''colors'' s
       (\<lambda>colors_v. subscript colors_v ''docs'' s (\<lambda>c. draw_box 50 (y_pos_v -
       15) 43 15 documentation_label c 11 ''round'' env s)))),
     (\<lambda>env s. load y_pos ''y_pos'' s (\<lambda>y_pos_v. Inr (s\<lparr>y_pos := Some (y_pos_v
       - 20)\<rparr>)))
    ]"

text \<open>Lines 97 to 98: the box of the workflows.\<close>

definition devops :: "stmt list" where
  "devops =
    [
     (\<lambda>env s. load y_pos ''y_pos'' s (\<lambda>y_pos_v. load colors ''colors'' s
       (\<lambda>colors_v. subscript colors_v ''config'' s (\<lambda>c. draw_box 5 (y_pos_v -
       10) 28 10 devops_label c 11 ''round'' env s))))
    ]"

text \<open>Lines 101 to 109: the statistics box and its seven annotations.\<close>

definition statistics_box :: "stmt list" where
  "statistics_box =
    [
     (\<lambda>env s. load y_pos ''y_pos'' s (\<lambda>y_pos_v. Inr (s\<lparr>stats_y := Some
       (y_pos_v - 10)\<rparr>))),
     (\<lambda>env s. load stats_y ''stats_y'' s (\<lambda>stats_y_v. load colors ''colors'' s
       (\<lambda>colors_v. subscript colors_v ''qa'' s (\<lambda>c. draw_box 35 stats_y_v 58 10
       '''' c 11 ''round'' env s)))),
     (\<lambda>env s. load stats_y ''stats_y'' s (\<lambda>stats_y_v. issue (Text 64 (stats_y_v + 7)
       (bar_chart @ '' QA Statistics'') 12 [(''fontweight'', ''bold''), (''ha'', ''center'')])
       env s)),
     (\<lambda>env s. load stats_y ''stats_y'' s (\<lambda>stats_y_v. issue (Text 45 (stats_y_v + 4)
       ''147+ Checkpoints'' 10 [(''ha'', ''center'')]) env s)),
     (\<lambda>env s. load stats_y ''stats_y'' s (\<lambda>stats_y_v. issue (Text 64 (stats_y_v + 4)
       ''8 Validators'' 10 [(''ha'', ''center'')]) env s)),
     (\<lambda>env s. load stats_y ''stats_y'' s (\<lambda>stats_y_v. issue (Text 83 (stats_y_v + 4)
       ''3 Swarm Agents'' 10 [(''ha'', ''center'')]) env s)),
     (\<lambda>env s. load stats_y ''stats_y'' s (\<lambda>stats_y_v. issue (Text 45 (stats_y_v +
       1.5) ''27 EU AI Act'' 10 [(''ha'', ''center'')]) env s)),
     (\<lambda>env s. load stats_y ''stats_y'' s (\<lambda>stats_y_v. issue (Text 64 (stats_y_v +
       1.5) ''23 LLM Gov'' 10 [(''ha'', ''center'')]) env s)),
     (\<lambda>env s. load stats_y ''stats_y'' s (\<lambda>stats_y_v. issue (Text 83 (stats_y_v +
       1.5) ''14 Prisma'' 10 [(''ha'', ''center'')]) env s))
    ]"

text \<open>Lines 112 to 132: the technology-stack box and its thirteen annotations.\<close>

definition tech_stack :: "stmt list" where
  "tech_stack =
    [
     (\<lambda>env s. load y_pos ''y_pos'' s (\<lambda>y_pos_v. Inr (s\<lparr>tech_y := Some
       (y_pos_v - 25)\<rparr>))),
     (\<lambda>env s. load tech_y ''tech_y'' s (\<lambda>tech_y_v. load colors ''colors'' s
       (\<lambda>colors_v. subscript colors_v ''core'' s (\<lambda>c. draw_box 5 tech_y_v 88 12
       '''' c 11 ''round'' env s)))),
     (\<lambda>env s. load tech_y ''tech_y'' s (\<lambda>tech_y_v. issue (Text 49 (tech_y_v + 10)
       (laptop @ '' Technology Stack'') 12 [(''fontweight'', ''bold''), (''ha'', ''center'')])
       env s)),
     (\<lambda>env s. load tech_y ''tech_y'' s (\<lambda>tech_y_v. issue (Text 20 (tech_y_v + 7)
       ''Frontend:'' 10 [(''fontweight'', ''bold'')]) env s)),
     (\<lambda>env s. load tech_y ''tech_y'' s (\<lambda>tech_y_v. issue (Text 20 (tech_y_v + 5)
       (bullet @ '' React 18 + TypeScript'') 9 []) env s)),
     (\<lambda>env s. load tech_y ''tech_y'' s (\<lambda>tech_y_v. issue (Text 20 (tech_y_v + 3.5)
       (bullet @ '' Vite + TailwindCSS'') 9 []) env s)),
     (\<lambda>env s. load tech_y ''tech_y'' s (\<lambda>tech_y_v. issue (Text 20 (tech_y_v + 2)
       (bullet @ '' React Router + Zustand'') 9 []) env s)),
     (\<lambda>env s. load tech_y ''tech_y'' s (\<lambda>tech_y_v. issue (Text 49 (tech_y_v + 7)
       ''Backend:'' 10 [(''fontweight'', ''bold'')]) env s)),
     (\<lambda>env s. load tech_y ''tech_y'' s (\<lambda>tech_y_v. issue (Text 49 (tech_y_v + 5)
       (bullet @ '' Node.js + Express'') 9 []) env s)),
     (\<lambda>env s. load tech_y ''tech_y'' s (\<lambda>tech_y_v. issue (Text 49 (tech_y_v + 3.5)
       (bullet @ '' Prisma + PostgreSQL'') 9 []) env s)),
     (\<lambda>env s. load tech_y ''tech_y'' s (\<lambda>tech_y_v. issue (Text 49 (tech_y_v + 2)
       (bullet @ '' Supabase Auth + JWT'') 9 []) env s)),
     (\<lambda>env s. load tech_y ''tech_y'' s (\<lambda>tech_y_v. issue (Text 78 (tech_y_v + 7)
       ''DevOps:'' 10 [(''fontweight'', ''bold'')]) env s)),
     (\<lambda>env s. load tech_y ''tech_y'' s (\<lambda>tech_y_v. issue (Text 78 (tech_y_v + 5)
       (bullet @ '' Docker + GitHub Actions'') 9 []) env s)),
     (\<lambda>env s. load tech_y ''tech_y'' s (\<lambda>tech_y_v. issue (Text 78 (tech_y_v + 3.5)
       (bullet @ '' Vitest + ESLint'') 9 []) env s)),
     (\<lambda>env s. load tech_y ''tech_y'' s (\<lambda>tech_y_v. issue (Text 78 (tech_y_v + 2)
       (bullet @ '' Context7 Integration'') 9 []) env s))
    ]"

text \<open>Lines 135 to 141: the key-features box and its five annotations.\<close>

definition key_features :: "stmt list" where
  "key_features =
    [
     (\<lambda>env s. load tech_y ''tech_y'' s (\<lambda>tech_y_v. Inr (s\<lparr>features_y := Some
       (tech_y_v - 8)\<rparr>))),
     (\<lambda>env s. load features_y ''features_y'' s (\<lambda>features_y_v. load colors
       ''colors'' s (\<lambda>colors_v. subscript colors_v ''agents'' s (\<lambda>c. draw_box 5
       features_y_v 88 6 '''' c 11 ''round'' env s)))),
     (\<lambda>env s. load features_y ''features_y'' s (\<lambda>features_y_v. issue (Text 49
       (features_y_v + 4.5) (direct_hit @ '' Key Features'') 12 [(''fontweight'', ''bold''),
       (''ha'', ''center'')]) env s)),
     (\<lambda>env s. load features_y ''features_y'' s (\<lambda>features_y_v. issue (Text 25
       (features_y_v + 2) (check_mark @ '' EU AI Act Compliance Engine'') 9 []) env s)),
     (\<lambda>env s. load features_y ''features_y'' s (\<lambda>features_y_v. issue (Text 25
       (features_y_v + 0.5) (check_mark @ '' Real-time LLM/Prompt Monitoring'') 9 []) env s)),
     (\<lambda>env s. load features_y ''features_y'' s (\<lambda>features_y_v. issue (Text 68
       (features_y_v + 2) (check_mark @ '' Multi-Agent Swarm Architecture'') 9 []) env s)),
     (\<lambda>env s. load features_y ''features_y'' s (\<lambda>features_y_v. issue (Text 68
       (features_y_v + 0.5) (check_mark @ '' Automated Risk Classification'') 9 []) env s))
    ]"

text \<open>Lines 145 to 149: the three dashed connector lines.\<close>

definition connecting_lines :: "stmt list" where
  "connecting_lines =
    [
     (\<lambda>env s. load y_pos ''y_pos'' s (\<lambda>y_pos_v. issue (Plot [19, 35] [y_pos_v + 10,
       y_pos_v + 10] ''k--'' 0.3 1) env s)),
     (\<lambda>env s. load y_pos ''y_pos'' s (\<lambda>y_pos_v. issue (Plot [49, 49] [y_pos_v + 5,
       y_pos_v - 5] ''k--'' 0.3 1) env s)),
     (\<lambda>env s. load y_pos ''y_pos'' s (\<lambda>y_pos_v. issue (Plot [65, 33] [y_pos_v + 10,
       y_pos_v + 10] ''k--'' 0.3 1) env s))
    ]"

text \<open>Lines 152 to 155: the two footer lines.\<close>

definition footer :: "stmt list" where
  "footer =
    [
     issue (Text 50 2 ''AI Governance Navigator - Enterprise-grade AI Governance Platform'' 10
       [(''ha'', ''center''), (''style'', ''italic''), (''color'', ''gray'')]),
     issue (Text 50 0.5
       ''Compliant with EU AI Act | Real-time Monitoring | Automated Documentation'' 9
       [(''ha'', ''center''), (''color'', ''gray'')])
    ]"

text \<open>Line 157: \<open>plt.tight_layout()\<close>.\<close>

definition layout :: "stmt list" where
  "layout =
    [
     issue Tight_layout
    ]"

text \<open>Lines 158 to 159: \<open>plt.savefig(...)\<close>.\<close>

definition save_figure :: "stmt list" where
  "save_figure =
    [
     issue (Savefig (''C:'' @ backslash @ ''code'' @ backslash @ ''AIGovNav'' @ backslash @
       ''Reference'' @ backslash @ ''directory_structure.png'') 150 ''tight'' ''white''
       ''none'')
    ]"

text \<open>Line 160: \<open>plt.close()\<close>.\<close>

definition close_figure :: "stmt list" where
  "close_figure =
    [
     issue Close
    ]"

text \<open>Line 162: the \<open>print\<close>.\<close>

definition confirmation :: "stmt list" where
  "confirmation =
    [
     issue (Print (''Directory structure diagram saved to: C:'' @ backslash @ ''code'' @ backslash @
       ''AIGovNav'' @ backslash @ ''Reference'' @ backslash @ ''directory_structure.png''))
    ]"

text \<open>
  The module body in source order (imports and the \<open>def\<close> apart): everything up to
  \<open>plt.tight_layout()\<close>, then \<open>plt.savefig\<close>, \<open>plt.close\<close> and the
  \<open>print\<close>.
\<close>

definition before_save :: "stmt list" where
  "before_save =
     create_figure @ title @ color_scheme @ root_level @ application_sections @
     database_testing_config @ documentation_reference @ devops @ statistics_box @
     tech_stack @ key_features @ connecting_lines @ footer @ layout"

definition script :: "stmt list" where
  "script = before_save @ save_figure @ close_figure @ confirmation"

fun exec :: "stmt list \<Rightarrow> stmt" where
  "exec [] env s = Inr s"
| "exec (st # sts) env s = (case st env s of Inl e \<Rightarrow> Inl e | Inr s' \<Rightarrow> exec sts env s')"

definition init :: state where
  "init = \<lparr>colors = None, y_pos = None, stats_y = None, tech_y = None, features_y = None,
            trace = []\<rparr>"

text \<open>The environment in which the library never raises.\<close>

definition never_fails :: env where
  "never_fails h c = None"

definition run :: "env \<Rightarrow> result" where
  "run env = exec script env init"

text \<open>
  The interpreter ends with status 0 when the module body completes and with status 1 when
  an exception reaches the top level, after reporting that exception.
\<close>

definition exit_status :: "result \<Rightarrow> nat" where
  "exit_status r = (case r of Inl _ \<Rightarrow> 1 | Inr _ \<Rightarrow> 0)"

definition reported :: "result \<Rightarrow> error option" where
  "reported r = (case r of Inl (e, _) \<Rightarrow> Some e | Inr _ \<Rightarrow> None)"

section \<open>Observations on runs\<close>

text \<open>The calls a statement added: those of \<open>s'\<close> past the ones \<open>s\<close> already holds.\<close>

definition new_calls :: "state \<Rightarrow> state \<Rightarrow> call list" where
  "new_calls s s' = drop (length (trace s)) (trace s')"

text \<open>
  The \<open>ax.text\<close> call of the loop body for the pair \<open>(i, line)\<close>; the lemmas below show
  that a completed loop has issued exactly these calls, one per line, in order.
\<close>

definition line_text :: "rat \<Rightarrow> rat \<Rightarrow> rat \<Rightarrow> rat \<Rightarrow> rat \<Rightarrow> int \<Rightarrow> nat \<times> string \<Rightarrow> call" where
  "line_text x y width height line_height fontsize il =
     Text (x + width / 2) (y + height - (of_nat (fst il) + 1) * line_height) (snd il)
       (if fst il = 0 then fontsize else fontsize - 1)
       [(''fontweight'', if fst il = 0 then ''bold'' else ''normal''), (''ha'', ''center''),
        (''va'', ''center'')]"

text \<open>The patch object \<open>draw_box\<close> builds before \<open>ax.add_patch(box)\<close>.\<close>

definition box_of :: "rat \<Rightarrow> rat \<Rightarrow> rat \<Rightarrow> rat \<Rightarrow> string \<Rightarrow> string \<Rightarrow> patch" where
  "box_of x y width height color style =
     (if style = ''round''
      then FancyBboxPatch (x, y) width height ''round,pad=0.1'' color ''black'' 0.3 1.5
      else Rectangle (x, y) width height color ''black'' 0.3 1.5)"

text \<open>All calls of one \<open>draw_box\<close> invocation that completes.\<close>

definition draw_box_calls :: "rat \<Rightarrow> rat \<Rightarrow> rat \<Rightarrow> rat \<Rightarrow> string \<Rightarrow> string \<Rightarrow> int \<Rightarrow> string \<Rightarrow> call list" where
  "draw_box_calls x y width height text color fontsize style =
     Add_patch (box_of x y width height color style) #
     map (line_text x y width height
            (height / of_nat (length (str_split (CHR 0x0A) text) + 1)) fontsize)
         (enumerate 0 (str_split (CHR 0x0A) text))"

text \<open>
  A \<open>Rectangle\<close> has sharp corners; a \<open>FancyBboxPatch\<close> has round ones when its box style
  is one of the round styles.
\<close>

definition rounded :: "patch \<Rightarrow> bool" where
  "rounded p =
     (case p of
        FancyBboxPatch _ _ _ bs _ _ _ _ \<Rightarrow> prefix ''round'' bs
      | Rectangle _ _ _ _ _ _ _ \<Rightarrow> False)"

text \<open>The state a run ends in, whether it completed or raised.\<close>

fun final :: "result \<Rightarrow> state" where
  "final (Inl (e, s)) = s"
| "final (Inr s) = s"

text \<open>
  The calls of the statements up to \<open>plt.tight_layout()\<close> when nothing fails, with the
  variables resolved (\<open>y_pos\<close> runs through 105, 97, 67, 47, 27), and the state they
  leave; the calls that follow. Lemma \<open>exec_before_save\<close> below proves that the
  statements issue exactly these.
\<close>

definition before_save_calls :: "call list" where
  "before_save_calls =
     [Subplots (20, 24) 100,
      Set_xlim 0 100,
      Set_ylim 0 120,
      Axis ''off'',
      Text 50 118 ''AI Governance Navigator - Directory Structure'' 24 [(''fontweight'', ''bold''),
        (''ha'', ''center'')],
      Text 50 115 ''Complete Project Architecture Overview'' 14 [(''ha'', ''center''), (''color'',
        ''gray'')]] @
     draw_box_calls 35 105 30 5 root_label ''#7ED321'' 12 ''round'' @
     draw_box_calls 5 72 28 25 src_label ''#4A90E2'' 11 ''round'' @
     draw_box_calls 35 72 28 25 qa_label ''#50E3C2'' 11 ''round'' @
     draw_box_calls 65 72 28 25 agents_label ''#F5A623'' 11 ''round'' @
     draw_box_calls 5 52 28 15 prisma_label ''#BD10E0'' 11 ''round'' @
     draw_box_calls 35 52 28 15 tests_label ''#4A90E2'' 11 ''round'' @
     draw_box_calls 65 52 28 15 config_files_label ''#7ED321'' 11 ''round'' @
     draw_box_calls 5 32 42 15 reference_label ''#9013FE'' 11 ''round'' @
     draw_box_calls 50 32 43 15 documentation_label ''#9013FE'' 11 ''round'' @
     draw_box_calls 5 17 28 10 devops_label ''#7ED321'' 11 ''round'' @
     draw_box_calls 35 17 58 10 '''' ''#50E3C2'' 11 ''round'' @
     [Text 64 24 (bar_chart @ '' QA Statistics'') 12 [(''fontweight'', ''bold''), (''ha'',
        ''center'')],
      Text 45 21 ''147+ Checkpoints'' 10 [(''ha'', ''center'')],
      Text 64 21 ''8 Validators'' 10 [(''ha'', ''center'')],
      Text 83 21 ''3 Swarm Agents'' 10 [(''ha'', ''center'')],
      Text 45 18.5 ''27 EU AI Act'' 10 [(''ha'', ''center'')],
      Text 64 18.5 ''23 LLM Gov'' 10 [(''ha'', ''center'')],
      Text 83 18.5 ''14 Prisma'' 10 [(''ha'', ''center'')]] @
     draw_box_calls 5 2 88 12 '''' ''#4A90E2'' 11 ''round'' @
     [Text 49 12 (laptop @ '' Technology Stack'') 12 [(''fontweight'', ''bold''), (''ha'',
        ''center'')],
      Text 20 9 ''Frontend:'' 10 [(''fontweight'', ''bold'')],
      Text 20 7 (bullet @ '' React 18 + TypeScript'') 9 [],
      Text 20 5.5 (bullet @ '' Vite + TailwindCSS'') 9 [],
      Text 20 4 (bullet @ '' React Router + Zustand'') 9 [],
      Text 49 9 ''Backend:'' 10 [(''fontweight'', ''bold'')],
      Text 49 7 (bullet @ '' Node.js + Express'') 9 [],
      Text 49 5.5 (bullet @ '' Prisma + PostgreSQL'') 9 [],
      Text 49 4 (bullet @ '' Supabase Auth + JWT'') 9 [],
      Text 78 9 ''DevOps:'' 10 [(''fontweight'', ''bold'')],
      Text 78 7 (bullet @ '' Docker + GitHub Actions'') 9 [],
      Text 78 5.5 (bullet @ '' Vitest + ESLint'') 9 [],
      Text 78 4 (bullet @ '' Context7 Integration'') 9 []] @
     draw_box_calls 5 (- 6) 88 6 '''' ''#F5A623'' 11 ''round'' @
     [Text 49 (- 1.5) (direct_hit @ '' Key Features'') 12 [(''fontweight'', ''bold''), (''ha'',
        ''center'')],
      Text 25 (- 4) (check_mark @ '' EU AI Act Compliance Engine'') 9 [],
      Text 25 (- 5.5) (check_mark @ '' Real-time LLM/Prompt Monitoring'') 9 [],
      Text 68 (- 4) (check_mark @ '' Multi-Agent Swarm Architecture'') 9 [],
      Text 68 (- 5.5) (check_mark @ '' Automated Risk Classification'') 9 [],
      Plot [19, 35] [37, 37] ''k--'' 0.3 1,
      Plot [49, 49] [32, 22] ''k--'' 0.3 1,
      Plot [65, 33] [37, 37] ''k--'' 0.3 1,
      Text 50 2 ''AI Governance Navigator - Enterprise-grade AI Governance Platform'' 10 [(''ha'',
        ''center''), (''style'', ''italic''), (''color'', ''gray'')],
      Text 50 0.5 ''Compliant with EU AI Act | Real-time Monitoring | Automated Documentation'' 9
        [(''ha'', ''center''), (''color'', ''gray'')],
      Tight_layout]"

definition before_save_state :: state where
  "before_save_state =
     \<lparr>colors = Some palette,
      y_pos = Some 27, stats_y = Some 17, tech_y = Some 2, features_y = Some (- 6),
      trace = before_save_calls\<rparr>"

definition after_save_calls :: "call list" where
  "after_save_calls =
     [Savefig (''C:'' @ backslash @ ''code'' @ backslash @ ''AIGovNav'' @ backslash @ ''Reference'' @
        backslash @ ''directory_structure.png'') 150 ''tight'' ''white'' ''none'',
      Close,
      Print (''Directory structure diagram saved to: C:'' @ backslash @ ''code'' @ backslash @
        ''AIGovNav'' @ backslash @ ''Reference'' @ backslash @ ''directory_structure.png'')]"

text \<open>
  A statement is faithful when the library's failures can only cut its calls short: under any
  environment it issues a prefix of the calls it issues when nothing fails, and when it
  completes it ends in the very state it ends in when nothing fails.
\<close>

definition faithful :: "stmt \<Rightarrow> bool" where
  "faithful st =
     (\<forall>env s.
        prefix (trace s) (trace (final (st env s))) \<and>
        prefix (trace (final (st env s))) (trace (final (st (\<lambda>_ _. None) s))) \<and>
        (\<forall>s'. st env s = Inr s' \<longrightarrow> st (\<lambda>_ _. None) s = Inr s'))"

text \<open>Statements that leave the variable \<open>colors\<close> as it is, however they end.\<close>

definition keeps_colors :: "stmt \<Rightarrow> bool" where
  "keeps_colors st = (\<forall>env s. colors (final (st env s)) = colors s)"

text \<open>Statements that leave a property of the state intact, however they end.\<close>

definition preserves :: "(state \<Rightarrow> bool) \<Rightarrow> stmt \<Rightarrow> bool" where
  "preserves P st = (\<forall>env s. P s \<longrightarrow> P (final (st env s)))"

text \<open>The palette is not bound yet and no box has been drawn.\<close>

definition unbound_no_box :: "state \<Rightarrow> bool" where
  "unbound_no_box s = (colors s = None \<and> filter is_Add_patch (trace s) = [])"

text \<open>The statements after the assignment of \<open>colors\<close>.\<close>

definition after_palette :: "stmt list" where
  "after_palette =
     root_level @ application_sections @ database_testing_config @ documentation_reference @
     devops @ statistics_box @ tech_stack @ key_features @ connecting_lines @ footer @ layout @
     save_figure @ close_figure @ confirmation"

text \<open>
  The canvas extent: the limits the run has set with \<open>ax.set_xlim\<close> and \<open>ax.set_ylim\<close>
  (the last call wins).
\<close>

fun xlim :: "call list \<Rightarrow> (rat \<times> rat) option" where
  "xlim [] = None"
| "xlim (Set_xlim a b # cs) = (case xlim cs of None \<Rightarrow> Some (a, b) | Some l \<Rightarrow> Some l)"
| "xlim (c # cs) = xlim cs"

fun ylim :: "call list \<Rightarrow> (rat \<times> rat) option" where
  "ylim [] = None"
| "ylim (Set_ylim a b # cs) = (case ylim cs of None \<Rightarrow> Some (a, b) | Some l \<Rightarrow> Some l)"
| "ylim (c # cs) = ylim cs"

definition in_range :: "rat \<times> rat \<Rightarrow> rat \<Rightarrow> bool" where
  "in_range l v = (fst l \<le> v \<and> v \<le> snd l)"

text \<open>
  A text annotation lies in the canvas when its anchor does, a box when the rectangle
  \<open>[x, x + width] \<times> [y, y + height]\<close> does, a connector line when its end points do.
\<close>

fun in_canvas :: "rat \<times> rat \<Rightarrow> rat \<times> rat \<Rightarrow> call \<Rightarrow> bool" where
  "in_canvas xl yl (Text x y s n kw) = (in_range xl x \<and> in_range yl y)"
| "in_canvas xl yl (Add_patch p) =
     (in_range xl (fst (patch_xy p)) \<and> in_range xl (fst (patch_xy p) + patch_width p) \<and>
      in_range yl (snd (patch_xy p)) \<and> in_range yl (snd (patch_xy p) + patch_height p))"
| "in_canvas xl yl (Plot xs ys fmt a w) = (list_all (in_range xl) xs \<and> list_all (in_range yl) ys)"
| "in_canvas xl yl c = True"

definition outside :: "rat \<times> rat \<Rightarrow> rat \<times> rat \<Rightarrow> call \<Rightarrow> bool" where
  "outside xl yl c = (\<not> in_canvas xl yl c)"

section \<open>What the code guarantees\<close>

lemma issue_Inr: "issue c env s = Inr s' \<Longrightarrow> s' = s\<lparr>trace := trace s @ [c]\<rparr>"
  by (auto simp: issue_def split: option.splits)

lemma issue_ok: "issue c (\<lambda>_ _. None) s = Inr (s\<lparr>trace := trace s @ [c]\<rparr>)"
  by (simp add: issue_def)

lemma draw_box_lines_Inr:
  "draw_box_lines x y w h lh fs ils env s = Inr s' \<Longrightarrow>
   s' = s\<lparr>trace := trace s @ map (line_text x y w h lh fs) ils\<rparr>"
proof (induction ils arbitrary: s)
  case Nil
  then show ?case by simp
next
  case (Cons il ils)
  obtain i line where il: "il = (i, line)" by (cases il)
  from Cons.prems obtain s1 where
    s1: "issue (line_text x y w h lh fs (i, line)) env s = Inr s1" and
    rest: "draw_box_lines x y w h lh fs ils env s1 = Inr s'"
    by (auto simp: il line_text_def Let_def split: sum.splits)
  from issue_Inr [OF s1] Cons.IH [OF rest] show ?case
    by (simp add: il)
qed

lemma draw_box_lines_ok:
  "draw_box_lines x y w h lh fs ils (\<lambda>_ _. None) s =
   Inr (s\<lparr>trace := trace s @ map (line_text x y w h lh fs) ils\<rparr>)"
proof (induction ils arbitrary: s)
  case Nil
  then show ?case by simp
next
  case (Cons il ils)
  obtain i line where il: "il = (i, line)" by (cases il)
  show ?case
    by (simp add: il issue_ok Cons.IH Let_def line_text_def)
qed

lemma draw_box_Inr:
  assumes "draw_box x y width height text color fontsize style env s = Inr s'"
  shows "s' = s\<lparr>trace := trace s @ draw_box_calls x y width height text color fontsize style\<rparr>"
proof -
  from assms obtain s1 where
    s1: "issue (Add_patch (box_of x y width height color style)) env s = Inr s1" and
    rest: "draw_box_lines x y width height
             (height / of_nat (length (str_split (CHR 0x0A) text) + 1)) fontsize
             (enumerate 0 (str_split (CHR 0x0A) text)) env s1 = Inr s'"
    by (auto simp: draw_box_def box_of_def Let_def split: sum.splits)
  from issue_Inr [OF s1] draw_box_lines_Inr [OF rest] show ?thesis
    by (simp add: draw_box_calls_def)
qed

lemma draw_box_ok:
  "draw_box x y width height text color fontsize style (\<lambda>_ _. None) s =
   Inr (s\<lparr>trace := trace s @ draw_box_calls x y width height text color fontsize style\<rparr>)"
  by (simp add: draw_box_def issue_ok draw_box_lines_ok draw_box_calls_def box_of_def Let_def)

lemma new_calls_draw_box:
  "draw_box x y width height text color fontsize style env s = Inr s' \<Longrightarrow>
   new_calls s s' = draw_box_calls x y width height text color fontsize style"
  by (drule draw_box_Inr) (simp add: new_calls_def)

lemma is_Text_line_text: "is_Text (line_text x y w h lh fs il)"
  by (simp add: line_text_def)

lemma filter_is_Text_lines:
  "filter is_Text (map (line_text x y w h lh fs) ils) = map (line_text x y w h lh fs) ils"
  by (induction ils) (simp_all add: is_Text_line_text)

lemma filter_is_Add_patch_lines:
  "filter is_Add_patch (map (line_text x y w h lh fs) ils) = []"
  by (induction ils) (simp_all add: line_text_def)

lemma texts_draw_box_calls:
  "filter is_Text (draw_box_calls x y w h t c fs st) =
   map (line_text x y w h (h / of_nat (length (str_split (CHR 0x0A) t) + 1)) fs)
       (enumerate 0 (str_split (CHR 0x0A) t))"
  by (simp add: draw_box_calls_def filter_is_Text_lines)

lemma patches_draw_box_calls:
  "filter is_Add_patch (draw_box_calls x y w h t c fs st) = [Add_patch (box_of x y w h c st)]"
  by (simp add: draw_box_calls_def filter_is_Add_patch_lines)

lemma map_index_enumerate:
  "map (\<lambda>il. g (fst il)) (enumerate 0 ls) = map g [0..<length ls]"
proof -
  have "map g (map fst (enumerate 0 ls)) = map g [0..<length ls]"
    by simp
  then show ?thesis
    unfolding map_map comp_def .
qed

lemma str_split_no_sep: "sep \<notin> set t \<Longrightarrow> str_split sep t = [t]"
  by (induction t) auto

lemma str_split_not_Nil: "str_split sep t \<noteq> []"
  by (induction t) (auto split: list.splits)

text \<open>
  C8: a \<open>draw_box\<close> call that completes adds exactly one patch, at \<open>(x, y)\<close> with the given
  width and height, filled with the given colour at alpha 0.3 and with a black edge; its corners
  are round if and only if \<open>style\<close> is \<open>'round'\<close>.
\<close>

theorem draw_box_adds_one_patch:
  assumes "draw_box x y width height text color fontsize style env s = Inr s'"
  shows "\<exists>p. map patch_of (filter is_Add_patch (new_calls s s')) = [p] \<and>
             patch_xy p = (x, y) \<and> patch_width p = width \<and> patch_height p = height \<and>
             facecolor p = color \<and> alpha p = 3 / 10 \<and> edgecolor p = ''black'' \<and>
             (rounded p \<longleftrightarrow> style = ''round'')"
proof -
  have "map patch_of (filter is_Add_patch (new_calls s s')) = [box_of x y width height color style]"
    by (simp add: new_calls_draw_box [OF assms] patches_draw_box_calls)
  then show ?thesis
    by (auto simp: box_of_def rounded_def)
qed

theorem draw_box_adds_one_patch_witness:
  "\<exists>p. map patch_of (filter is_Add_patch
           (new_calls init (final (draw_box 35 105 30 5 ''src'' ''#7ED321'' 12 ''round''
              (\<lambda>_ _. None) init)))) = [p] \<and>
       patch_xy p = (35, 105) \<and> rounded p"
proof -
  have h: "draw_box 35 105 30 5 ''src'' ''#7ED321'' 12 ''round'' (\<lambda>_ _. None) init =
           Inr (final (draw_box 35 105 30 5 ''src'' ''#7ED321'' 12 ''round'' (\<lambda>_ _. None) init))"
    by (simp add: draw_box_ok)
  from draw_box_adds_one_patch [OF h] show ?thesis by auto
qed

text \<open>
  C10: a text without a newline (the empty string included) is rendered as exactly one text
  element: the whole text, bold, at the given font size, centred at \<open>y + height / 2\<close>.
\<close>

theorem draw_box_single_line:
  assumes "CHR 0x0A \<notin> set text"
    and "draw_box x y width height text color fontsize style env s = Inr s'"
  shows "filter is_Text (new_calls s s') =
         [Text (x + width / 2) (y + height / 2) text fontsize
            [(''fontweight'', ''bold''), (''ha'', ''center''), (''va'', ''center'')]]"
proof -
  have "str_split (CHR 0x0A) text = [text]"
    using assms(1) by (rule str_split_no_sep)
  then show ?thesis
    by (simp add: new_calls_draw_box [OF assms(2)] texts_draw_box_calls line_text_def
        enumerate_simps field_simps)
qed

theorem draw_box_single_line_witness:
  "filter is_Text (new_calls init (final (draw_box 35 17 58 10 '''' ''#50E3C2'' 11 ''round''
      (\<lambda>_ _. None) init))) =
   [Text 64 22 '''' 11 [(''fontweight'', ''bold''), (''ha'', ''center''), (''va'', ''center'')]]"
proof -
  have h1: "CHR 0x0A \<notin> set ''''" by simp
  have h2: "draw_box 35 17 58 10 '''' ''#50E3C2'' 11 ''round'' (\<lambda>_ _. None) init =
            Inr (final (draw_box 35 17 58 10 '''' ''#50E3C2'' 11 ''round'' (\<lambda>_ _. None) init))"
    by (simp add: draw_box_ok)
  from draw_box_single_line [OF h1 h2] show ?thesis by simp
qed



text \<open>
  C7: line 0 is bold at \<open>fontsize\<close>, every other line has normal weight at
  \<open>fontsize - 1\<close>, which is strictly smaller.
\<close>

theorem draw_box_first_line_bold:
  assumes "draw_box x y width height text color fontsize style env s = Inr s'"
    and "n = length (str_split (CHR 0x0A) text)"
  shows "map (\<lambda>c. (text_fontsize c, map_of (text_kwargs c) ''fontweight''))
           (filter is_Text (new_calls s s')) =
         map (\<lambda>i. if i = 0 then (fontsize, Some ''bold'') else (fontsize - 1, Some ''normal''))
           [0..<n] \<and>
         fontsize - 1 < fontsize"
proof -
  let ?ls = "str_split (CHR 0x0A) text"
  let ?ts = "filter is_Text (new_calls s s')"
  let ?f = "\<lambda>c. (text_fontsize c, map_of (text_kwargs c) ''fontweight'')"
  let ?g = "\<lambda>i::nat. if i = 0 then (fontsize, Some ''bold'') else (fontsize - 1, Some ''normal'')"
  have ts: "?ts = map (line_text x y width height (height / of_nat (n + 1)) fontsize) (enumerate 0 ?ls)"
    by (simp add: new_calls_draw_box [OF assms(1)] texts_draw_box_calls assms(2))
  have "map ?f ?ts = map (\<lambda>il. ?g (fst il)) (enumerate 0 ?ls)"
    unfolding ts map_map comp_def by (simp add: line_text_def)
  also have "\<dots> = map ?g [0..<length ?ls]"
    by (rule map_index_enumerate)
  finally show ?thesis by (simp add: assms(2))
qed

theorem draw_box_first_line_bold_witness:
  "map (\<lambda>c. (text_fontsize c, map_of (text_kwargs c) ''fontweight''))
     (filter is_Text (new_calls init (final
        (draw_box 5 17 28 10 (''a'' @ newline @ newline @ ''b'') ''#7ED321'' 11 ''round''
           (\<lambda>_ _. None) init)))) =
   [(11, Some ''bold''), (10, Some ''normal''), (10, Some ''normal'')]"
proof -
  have h: "draw_box 5 17 28 10 (''a'' @ newline @ newline @ ''b'') ''#7ED321'' 11 ''round''
             (\<lambda>_ _. None) init =
           Inr (final (draw_box 5 17 28 10 (''a'' @ newline @ newline @ ''b'')
             ''#7ED321'' 11 ''round'' (\<lambda>_ _. None) init))"
    by (simp add: draw_box_ok)
  have n: "(3::nat) = length (str_split (CHR 0x0A) (''a'' @ newline @ newline @ ''b''))"
    by (simp add: newline_def)
  from draw_box_first_line_bold [OF h n] show ?thesis
    by (simp add: newline_def eval_nat_numeral)
qed

lemmas sections = create_figure_def title_def color_scheme_def root_level_def
  application_sections_def database_testing_config_def documentation_reference_def devops_def
  statistics_box_def tech_stack_def key_features_def connecting_lines_def footer_def layout_def
  save_figure_def close_figure_def confirmation_def

lemma issue_None: "env (trace s) c = None \<Longrightarrow> issue c env s = Inr (s\<lparr>trace := trace s @ [c]\<rparr>)"
  by (simp add: issue_def)

lemma draw_box_lines_quiet:
  assumes "\<And>h c. is_Text c \<Longrightarrow> env h c = None"
  shows "draw_box_lines x y w h lh fs ils env s =
         Inr (s\<lparr>trace := trace s @ map (line_text x y w h lh fs) ils\<rparr>)"
proof (induction ils arbitrary: s)
  case Nil
  then show ?case by simp
next
  case (Cons il ils)
  obtain i line where il: "il = (i, line)" by (cases il)
  show ?case
    by (simp add: il issue_None assms Cons.IH Let_def line_text_def)
qed

lemma draw_box_quiet:
  assumes "\<And>h c. \<not> is_Savefig c \<Longrightarrow> env h c = None"
  shows "draw_box x y width height text color fontsize style env s =
         Inr (s\<lparr>trace := trace s @ draw_box_calls x y width height text color fontsize style\<rparr>)"
proof -
  have t: "\<And>h c. is_Text c \<Longrightarrow> env h c = None"
    by (rule assms) (auto simp: is_Text_def)
  show ?thesis
    by (simp add: draw_box_def issue_None assms draw_box_lines_quiet [OF t] draw_box_calls_def
        box_of_def Let_def)
qed

lemma exec_append:
  "exec (xs @ ys) env s = (case exec xs env s of Inl e \<Rightarrow> Inl e | Inr s' \<Rightarrow> exec ys env s')"
  by (induction xs arbitrary: s) (auto split: sum.splits)

lemma exec_before_save:
  assumes "\<And>h c. \<not> is_Savefig c \<Longrightarrow> env h c = None"
  shows "exec before_save env init = Inr before_save_state"
  unfolding before_save_def sections
  by (simp add: issue_None assms draw_box_quiet [OF assms] load_def subscript_def init_def
      before_save_state_def before_save_calls_def palette_def)

lemma faithful_issue: "faithful (issue c)"
  by (auto simp: faithful_def issue_def split: option.splits)

lemma faithful_pure:
  assumes "\<And>s. trace (final (f s)) = trace s"
  shows "faithful (\<lambda>env s. f s)"
  by (simp add: faithful_def assms)

lemma faithful_load:
  assumes "\<And>x. faithful (\<lambda>env s. k x env s)"
  shows "faithful (\<lambda>env s. load v n s (\<lambda>x. k x env s))"
  unfolding faithful_def
proof (intro allI)
  fix env s
  show "prefix (trace s) (trace (final (load v n s (\<lambda>x. k x env s)))) \<and>
        prefix (trace (final (load v n s (\<lambda>x. k x env s))))
               (trace (final (load v n s (\<lambda>x. k x (\<lambda>_ _. None) s)))) \<and>
        (\<forall>s'. load v n s (\<lambda>x. k x env s) = Inr s' \<longrightarrow>
              load v n s (\<lambda>x. k x (\<lambda>_ _. None) s) = Inr s')"
  proof (cases "v s")
    case None
    then show ?thesis by (simp add: load_def)
  next
    case (Some x)
    with assms [of x] show ?thesis
      by (simp add: load_def faithful_def)
  qed
qed

lemma faithful_subscript:
  assumes "\<And>x. faithful (\<lambda>env s. k x env s)"
  shows "faithful (\<lambda>env s. subscript d key s (\<lambda>x. k x env s))"
  unfolding faithful_def
proof (intro allI)
  fix env s
  show "prefix (trace s) (trace (final (subscript d key s (\<lambda>x. k x env s)))) \<and>
        prefix (trace (final (subscript d key s (\<lambda>x. k x env s))))
               (trace (final (subscript d key s (\<lambda>x. k x (\<lambda>_ _. None) s)))) \<and>
        (\<forall>s'. subscript d key s (\<lambda>x. k x env s) = Inr s' \<longrightarrow>
              subscript d key s (\<lambda>x. k x (\<lambda>_ _. None) s) = Inr s')"
  proof (cases "map_of d key")
    case None
    then show ?thesis by (simp add: subscript_def)
  next
    case (Some x)
    with assms [of x] show ?thesis
      by (simp add: subscript_def faithful_def)
  qed
qed

lemma draw_box_lines_final:
  "\<exists>k. final (draw_box_lines x y w h lh fs ils env s) =
        s\<lparr>trace := trace s @ take k (map (line_text x y w h lh fs) ils)\<rparr>"
proof (induction ils arbitrary: s)
  case Nil
  then show ?case by simp
next
  case (Cons il ils)
  obtain i line where il: "il = (i, line)" by (cases il)
  show ?case
  proof (cases "env (trace s) (line_text x y w h lh fs il)")
    case (Some e)
    then have "final (draw_box_lines x y w h lh fs (il # ils) env s) =
               s\<lparr>trace := trace s @ take 0 (map (line_text x y w h lh fs) (il # ils))\<rparr>"
      by (simp add: il issue_def line_text_def Let_def)
    then show ?thesis by blast
  next
    case None
    let ?s1 = "s\<lparr>trace := trace s @ [line_text x y w h lh fs il]\<rparr>"
    from None have step: "draw_box_lines x y w h lh fs (il # ils) env s =
                          draw_box_lines x y w h lh fs ils env ?s1"
      by (simp add: il issue_def line_text_def Let_def)
    from Cons.IH [of ?s1] obtain k where
      "final (draw_box_lines x y w h lh fs ils env ?s1) =
       ?s1\<lparr>trace := trace ?s1 @ take k (map (line_text x y w h lh fs) ils)\<rparr>"
      by blast
    then have "final (draw_box_lines x y w h lh fs (il # ils) env s) =
               s\<lparr>trace := trace s @ take (Suc k) (map (line_text x y w h lh fs) (il # ils))\<rparr>"
      by (simp add: step)
    then show ?thesis by blast
  qed
qed

lemma draw_box_final:
  "\<exists>k. final (draw_box x y w h t c fs st env s) =
        s\<lparr>trace := trace s @ take k (draw_box_calls x y w h t c fs st)\<rparr>"
proof (cases "env (trace s) (Add_patch (box_of x y w h c st))")
  case (Some e)
  then have "final (draw_box x y w h t c fs st env s) =
             s\<lparr>trace := trace s @ take 0 (draw_box_calls x y w h t c fs st)\<rparr>"
    by (simp add: draw_box_def issue_def box_of_def Let_def)
  then show ?thesis by blast
next
  case None
  let ?s1 = "s\<lparr>trace := trace s @ [Add_patch (box_of x y w h c st)]\<rparr>"
  let ?lh = "h / of_nat (length (str_split (CHR 0x0A) t) + 1)"
  let ?ils = "enumerate 0 (str_split (CHR 0x0A) t)"
  from None have step: "draw_box x y w h t c fs st env s = draw_box_lines x y w h ?lh fs ?ils env ?s1"
    by (simp add: draw_box_def issue_def box_of_def Let_def)
  from draw_box_lines_final [of x y w h ?lh fs ?ils env ?s1] obtain k where
    "final (draw_box_lines x y w h ?lh fs ?ils env ?s1) =
     ?s1\<lparr>trace := trace ?s1 @ take k (map (line_text x y w h ?lh fs) ?ils)\<rparr>"
    by blast
  then have "final (draw_box x y w h t c fs st env s) =
             s\<lparr>trace := trace s @ take (Suc k) (draw_box_calls x y w h t c fs st)\<rparr>"
    by (simp add: step draw_box_calls_def)
  then show ?thesis by blast
qed

lemma faithful_draw_box: "faithful (draw_box x y w h t c fs st)"
  unfolding faithful_def
proof (intro allI)
  fix env s
  obtain k where k: "final (draw_box x y w h t c fs st env s) =
                     s\<lparr>trace := trace s @ take k (draw_box_calls x y w h t c fs st)\<rparr>"
    using draw_box_final by blast
  have a: "prefix (trace s) (trace (final (draw_box x y w h t c fs st env s)))"
    by (simp add: k)
  have b: "prefix (trace (final (draw_box x y w h t c fs st env s)))
                  (trace (final (draw_box x y w h t c fs st (\<lambda>_ _. None) s)))"
    by (simp add: k draw_box_ok take_is_prefix)
  have c: "\<forall>s'. draw_box x y w h t c fs st env s = Inr s' \<longrightarrow>
                draw_box x y w h t c fs st (\<lambda>_ _. None) s = Inr s'"
    by (auto simp: draw_box_ok dest: draw_box_Inr)
  from a b c
  show "prefix (trace s) (trace (final (draw_box x y w h t c fs st env s))) \<and>
        prefix (trace (final (draw_box x y w h t c fs st env s)))
               (trace (final (draw_box x y w h t c fs st (\<lambda>_ _. None) s))) \<and>
        (\<forall>s'. draw_box x y w h t c fs st env s = Inr s' \<longrightarrow>
              draw_box x y w h t c fs st (\<lambda>_ _. None) s = Inr s')"
    by blast
qed

lemma faithful_exec: "list_all faithful sts \<Longrightarrow> faithful (exec sts)"
proof (induction sts)
  case Nil
  show ?case by (simp add: faithful_def)
next
  case (Cons st sts)
  then have st: "faithful st" and rest: "faithful (exec sts)" by simp_all
  show ?case
    unfolding faithful_def
  proof (intro allI)
    fix env s
    let ?ok = "(\<lambda>_ _. None) :: env"
    have a: "prefix (trace s) (trace (final (st env s)))"
      and b: "prefix (trace (final (st env s))) (trace (final (st ?ok s)))"
      and c: "\<And>s'. st env s = Inr s' \<Longrightarrow> st ?ok s = Inr s'"
      using st by (auto simp: faithful_def)
    show "prefix (trace s) (trace (final (exec (st # sts) env s))) \<and>
          prefix (trace (final (exec (st # sts) env s))) (trace (final (exec (st # sts) ?ok s))) \<and>
          (\<forall>s'. exec (st # sts) env s = Inr s' \<longrightarrow> exec (st # sts) ?ok s = Inr s')"
    proof (cases "st env s")
      case (Inr s1)
      from c [OF Inr] have ok: "st ?ok s = Inr s1" .
      from a Inr have a1: "prefix (trace s) (trace s1)" by simp
      from rest have r1: "prefix (trace s1) (trace (final (exec sts env s1)))"
        and r2: "prefix (trace (final (exec sts env s1))) (trace (final (exec sts ?ok s1)))"
        and r3: "\<And>s'. exec sts env s1 = Inr s' \<Longrightarrow> exec sts ?ok s1 = Inr s'"
        by (auto simp: faithful_def)
      from a1 r1 have "prefix (trace s) (trace (final (exec sts env s1)))"
        by (rule prefix_order.trans)
      with r2 r3 show ?thesis
        by (simp add: Inr ok)
    next
      case (Inl es)
      obtain e s1 where es: "es = (e, s1)" by (cases es)
      from a Inl es have a1: "prefix (trace s) (trace s1)" by simp
      from b Inl es have b1: "prefix (trace s1) (trace (final (st ?ok s)))" by simp
      have "prefix (trace s1) (trace (final (exec (st # sts) ?ok s)))"
      proof (cases "st ?ok s")
        case (Inl es2)
        with b1 show ?thesis by simp
      next
        case (Inr s2)
        from rest have "prefix (trace s2) (trace (final (exec sts ?ok s2)))"
          by (auto simp: faithful_def)
        with b1 Inr have "prefix (trace s1) (trace (final (exec sts ?ok s2)))"
          by (auto intro: prefix_order.trans)
        then show ?thesis by (simp add: Inr)
      qed
      with a1 show ?thesis
        by (simp add: Inl es)
    qed
  qed
qed

lemmas faithful_stmts = faithful_issue faithful_load faithful_subscript faithful_draw_box

lemma faithful_script: "list_all faithful script"
  unfolding script_def before_save_def sections list_all_append list.pred_inject
  by (intro conjI TrueI faithful_stmts faithful_pure) (simp_all add: load_def split: option.splits)

lemma faithful_before_save: "list_all faithful before_save"
  using faithful_script by (simp add: script_def)

lemma no_print_in_draw_box_calls: "filter is_Print (draw_box_calls x y w h t c fs st) = []"
  by (simp add: draw_box_calls_def line_text_def filter_empty_conv)

lemma no_savefig_in_draw_box_calls: "filter is_Savefig (draw_box_calls x y w h t c fs st) = []"
  by (simp add: draw_box_calls_def line_text_def filter_empty_conv)

lemma no_print_before_save: "filter is_Print before_save_calls = []"
  by (simp add: before_save_calls_def no_print_in_draw_box_calls)

lemma no_savefig_before_save: "filter is_Savefig before_save_calls = []"
  by (simp add: before_save_calls_def no_savefig_in_draw_box_calls)

lemma before_save_completes:
  assumes "exec before_save env init = Inr s"
  shows "s = before_save_state"
proof -
  have "faithful (exec before_save)"
    using faithful_before_save by (rule faithful_exec)
  with assms have "exec before_save (\<lambda>_ _. None) init = Inr s"
    by (simp add: faithful_def)
  then show ?thesis
    by (simp add: exec_before_save)
qed

lemma run_split:
  "run env =
     (case exec before_save env init of
        Inl e \<Rightarrow> Inl e
      | Inr s \<Rightarrow> exec (save_figure @ close_figure @ confirmation) env s)"
  by (simp add: run_def script_def exec_append)

lemma run_completes:
  assumes "\<And>h c. \<not> is_Savefig c \<Longrightarrow> env h c = None"
    and "\<And>c. env before_save_calls c = None"
  shows "run env = Inr (before_save_state\<lparr>trace := before_save_calls @ after_save_calls\<rparr>)"
  by (simp add: run_split exec_before_save [OF assms(1)] save_figure_def close_figure_def
      confirmation_def issue_None assms before_save_state_def after_save_calls_def)

lemma run_ok:
  "run (\<lambda>_ _. None) = Inr (before_save_state\<lparr>trace := before_save_calls @ after_save_calls\<rparr>)"
  by (rule run_completes) simp_all

lemma faithful_run:
  "prefix (trace (final (run env))) (trace (final (run (\<lambda>_ _. None))))"
  "run env = Inr s \<Longrightarrow> run (\<lambda>_ _. None) = Inr s"
proof -
  have f: "faithful (exec script)"
    using faithful_script by (rule faithful_exec)
  from f show "prefix (trace (final (run env))) (trace (final (run (\<lambda>_ _. None))))"
    by (simp add: faithful_def run_def)
  from f show "run env = Inr s \<Longrightarrow> run (\<lambda>_ _. None) = Inr s"
    by (simp add: faithful_def run_def)
qed

text \<open>
  C3: when the statements before \<open>plt.savefig\<close> have completed and the library raises on the
  save call, the run ends there with that exception: exit status 1, the exception reported,
  nothing printed.
\<close>

theorem savefig_failure_is_fatal:
  assumes "exec before_save env init = Inr s"
    and "env (trace s)
           (Savefig (''C:'' @ backslash @ ''code'' @ backslash @ ''AIGovNav'' @ backslash @
              ''Reference'' @ backslash @ ''directory_structure.png'')
              150 ''tight'' ''white'' ''none'') = Some e"
  shows "run env = Inl (e, s) \<and> exit_status (run env) = 1 \<and> reported (run env) = Some e \<and>
         filter is_Print (trace (final (run env))) = [] \<and>
         filter is_Savefig (trace (final (run env))) = []"
proof -
  have r: "run env = Inl (e, s)"
    using assms(2) by (simp add: run_split assms(1) save_figure_def issue_def)
  have s: "s = before_save_state"
    using assms(1) by (rule before_save_completes)
  show ?thesis
    by (simp add: r exit_status_def reported_def s before_save_state_def no_print_before_save
        no_savefig_before_save)
qed

theorem savefig_failure_is_fatal_witness:
  "run (\<lambda>h c. if is_Savefig c then Some (LibraryError ''No such file or directory'') else None) =
     Inl (LibraryError ''No such file or directory'', before_save_state) \<and>
   exit_status (run (\<lambda>h c. if is_Savefig c then Some (LibraryError ''No such file or directory'')
     else None)) = 1"
proof -
  let ?env = "\<lambda>(h :: call list) c.
    if is_Savefig c then Some (LibraryError ''No such file or directory'') else None"
  have h1: "exec before_save ?env init = Inr before_save_state"
    by (rule exec_before_save) simp
  have h2: "?env (trace before_save_state)
              (Savefig (''C:'' @ backslash @ ''code'' @ backslash @ ''AIGovNav'' @ backslash @
                 ''Reference'' @ backslash @ ''directory_structure.png'')
                 150 ''tight'' ''white'' ''none'') = Some (LibraryError ''No such file or directory'')"
    by simp
  from savefig_failure_is_fatal [OF h1 h2] show ?thesis by blast
qed

text \<open>
  C4: a run that completes has printed exactly one line, as its last action, right after the
  save and the close; the line is the fixed prefix followed by the very path the save call
  was given.
\<close>

theorem confirmation_after_save:
  assumes "run env = Inr s"
  shows "map message (filter is_Print (trace s)) =
           [''Directory structure diagram saved to: '' @
            (''C:'' @ backslash @ ''code'' @ backslash @ ''AIGovNav'' @ backslash @
             ''Reference'' @ backslash @ ''directory_structure.png'')] \<and>
         (\<exists>pre. filter is_Print pre = [] \<and> filter is_Savefig pre = [] \<and>
            trace s = pre @
              [Savefig (''C:'' @ backslash @ ''code'' @ backslash @ ''AIGovNav'' @ backslash @
                 ''Reference'' @ backslash @ ''directory_structure.png'')
                 150 ''tight'' ''white'' ''none'',
               Close,
               Print (''Directory structure diagram saved to: '' @
                 (''C:'' @ backslash @ ''code'' @ backslash @ ''AIGovNav'' @ backslash @
                  ''Reference'' @ backslash @ ''directory_structure.png''))])"
proof -
  from assms have "run (\<lambda>_ _. None) = Inr s"
    by (rule faithful_run(2))
  then have s: "s = before_save_state\<lparr>trace := before_save_calls @ after_save_calls\<rparr>"
    by (simp add: run_ok)
  have 1: "map message (filter is_Print (trace s)) =
           [''Directory structure diagram saved to: '' @
            (''C:'' @ backslash @ ''code'' @ backslash @ ''AIGovNav'' @ backslash @
             ''Reference'' @ backslash @ ''directory_structure.png'')]"
    by (simp add: s no_print_before_save after_save_calls_def)
  have 2: "trace s = before_save_calls @
              [Savefig (''C:'' @ backslash @ ''code'' @ backslash @ ''AIGovNav'' @ backslash @
                 ''Reference'' @ backslash @ ''directory_structure.png'')
                 150 ''tight'' ''white'' ''none'',
               Close,
               Print (''Directory structure diagram saved to: '' @
                 (''C:'' @ backslash @ ''code'' @ backslash @ ''AIGovNav'' @ backslash @
                  ''Reference'' @ backslash @ ''directory_structure.png''))]"
    by (simp add: s after_save_calls_def)
  from 1 2 no_print_before_save no_savefig_before_save show ?thesis by blast
qed

theorem confirmation_after_save_witness:
  "map message (filter is_Print (trace (final (run (\<lambda>_ _. None))))) =
     [''Directory structure diagram saved to: C:'' @ backslash @ ''code'' @ backslash @
      ''AIGovNav'' @ backslash @ ''Reference'' @ backslash @ ''directory_structure.png'']"
proof -
  have h: "run (\<lambda>_ _. None) = Inr (final (run (\<lambda>_ _. None)))"
    by (simp add: run_ok)
  from confirmation_after_save [OF h] show ?thesis by simp
qed



lemma never_fails_eq: "never_fails = (\<lambda>_ _. None)"
  by (rule ext)+ (simp add: never_fails_def)

lemma preserves_exec: "list_all (preserves P) sts \<Longrightarrow> preserves P (exec sts)"
proof (induction sts)
  case Nil
  show ?case by (simp add: preserves_def)
next
  case (Cons st sts)
  then have st: "preserves P st" and rest: "preserves P (exec sts)" by simp_all
  show ?case
    unfolding preserves_def
  proof (intro allI impI)
    fix env s
    assume P: "P s"
    with st have P1: "P (final (st env s))" by (simp add: preserves_def)
    show "P (final (exec (st # sts) env s))"
    proof (cases "st env s")
      case (Inl es)
      with P1 show ?thesis by simp
    next
      case (Inr s1)
      with P1 have "P s1" by simp
      with rest have "P (final (exec sts env s1))" by (simp add: preserves_def)
      then show ?thesis by (simp add: Inr)
    qed
  qed
qed

lemma list_all_take: "list_all Q xs \<Longrightarrow> list_all Q (take k xs)"
  by (auto simp: list_all_iff dest: in_set_takeD)

lemma keeps_colors_preserves: "keeps_colors st \<Longrightarrow> preserves (\<lambda>s. colors s = c) st"
  by (simp add: keeps_colors_def preserves_def)

lemma keeps_colors_issue: "keeps_colors (issue c)"
  by (auto simp: keeps_colors_def issue_def split: option.splits)

lemma keeps_colors_pure:
  assumes "\<And>s. colors (final (f s)) = colors s"
  shows "keeps_colors (\<lambda>env s. f s)"
  by (simp add: keeps_colors_def assms)

lemma keeps_colors_load:
  assumes "\<And>x. keeps_colors (\<lambda>env s. k x env s)"
  shows "keeps_colors (\<lambda>env s. load v n s (\<lambda>x. k x env s))"
  using assms by (auto simp: keeps_colors_def load_def split: option.splits)

lemma keeps_colors_subscript:
  assumes "\<And>x. keeps_colors (\<lambda>env s. k x env s)"
  shows "keeps_colors (\<lambda>env s. subscript d key s (\<lambda>x. k x env s))"
  using assms by (auto simp: keeps_colors_def subscript_def split: option.splits)

lemma keeps_colors_draw_box: "keeps_colors (draw_box x y w h t c fs st)"
  unfolding keeps_colors_def
proof (intro allI)
  fix env s
  obtain k where "final (draw_box x y w h t c fs st env s) =
                  s\<lparr>trace := trace s @ take k (draw_box_calls x y w h t c fs st)\<rparr>"
    using draw_box_final by blast
  then show "colors (final (draw_box x y w h t c fs st env s)) = colors s"
    by simp
qed

lemmas keeps_colors_stmts =
  keeps_colors_issue keeps_colors_load keeps_colors_subscript keeps_colors_draw_box

lemma script_parts:
  "script = (create_figure @ title) @ color_scheme @ after_palette"
  by (simp add: script_def before_save_def after_palette_def)

lemma keeps_colors_after: "list_all keeps_colors after_palette"
  unfolding after_palette_def sections list_all_append list.pred_inject
  by (intro conjI TrueI keeps_colors_stmts keeps_colors_pure)
    (simp_all add: load_def split: option.splits)

lemma preserves_unbound_issue:
  "\<not> is_Add_patch c \<Longrightarrow> preserves unbound_no_box (issue c)"
  by (auto simp: preserves_def unbound_no_box_def issue_def split: option.splits)

lemma unbound_before:
  "list_all (preserves unbound_no_box) (create_figure @ title)"
  by (simp add: create_figure_def title_def preserves_unbound_issue)

lemma final_exec_append:
  "final (exec (xs @ ys) env s) =
     (case exec xs env s of Inl es \<Rightarrow> snd es | Inr s' \<Rightarrow> final (exec ys env s'))"
  by (cases "exec xs env s") (auto simp: exec_append)

lemma take_three:
  "length a = 6 \<Longrightarrow> length b = 1 \<Longrightarrow>
   take k (a @ b @ c) = take k a @ take (k - 6) b @ take (k - 7) c"
  by simp

lemma three_phases:
  assumes A: "preserves unbound_no_box (exec A)"
    and C: "preserves (\<lambda>s. colors s = Some palette) (exec C)"
    and B: "B = [] \<and> C = [] \<or> B = color_scheme"
    and s: "unbound_no_box s"
  shows "unbound_no_box (final (exec (A @ B @ C) env s)) \<or>
         colors (final (exec (A @ B @ C) env s)) = Some palette"
proof (cases "exec A env s")
  case (Inl es)
  from A s have "unbound_no_box (final (exec A env s))"
    by (simp add: preserves_def)
  with Inl show ?thesis
    by (cases es) (simp add: final_exec_append)
next
  case (Inr sA)
  from A s have "unbound_no_box (final (exec A env s))"
    by (simp add: preserves_def)
  with Inr have uA: "unbound_no_box sA" by simp
  from B show ?thesis
  proof
    assume "B = [] \<and> C = []"
    with Inr uA show ?thesis
      by (simp add: final_exec_append)
  next
    assume B: "B = color_scheme"
    have "colors (final (exec C env (sA\<lparr>colors := Some palette\<rparr>))) = Some palette"
      using C by (simp add: preserves_def)
    then show ?thesis
      by (simp add: final_exec_append Inr B color_scheme_def)
  qed
qed

lemma take_script:
  "take k script =
     take k (create_figure @ title) @ take (k - 6) color_scheme @ take (k - 7) after_palette"
proof -
  have "length (create_figure @ title) = 6" and "length color_scheme = 1"
    by (simp_all add: create_figure_def title_def color_scheme_def)
  then show ?thesis
    by (subst script_parts) (rule take_three)
qed

lemma take_color_scheme: "take (k - 6) color_scheme = (if 7 \<le> k then color_scheme else [])"
  by (simp add: color_scheme_def)

lemma before_palette_preserves:
  "preserves unbound_no_box (exec (take k (create_figure @ title)))"
  by (rule preserves_exec, rule list_all_take, rule unbound_before)

lemma after_palette_preserves:
  "preserves (\<lambda>s. colors s = Some palette) (exec (take k after_palette))"
proof (rule preserves_exec)
  have "list_all keeps_colors (take k after_palette)"
    by (rule list_all_take, rule keeps_colors_after)
  then show "list_all (preserves (\<lambda>s. colors s = Some palette)) (take k after_palette)"
    by (auto simp: list_all_iff intro: keeps_colors_preserves)
qed

lemma palette_invariant:
  "unbound_no_box (final (exec (take k script) env init)) \<or>
   colors (final (exec (take k script) env init)) = Some palette"
proof -
  have B: "take (k - 6) color_scheme = [] \<and> take (k - 7) after_palette = [] \<or>
           take (k - 6) color_scheme = color_scheme"
    by (cases "7 \<le> k") (simp_all add: take_color_scheme)
  have init: "unbound_no_box init"
    by (simp add: unbound_no_box_def init_def)
  show ?thesis
    unfolding take_script
    by (rule three_phases [OF before_palette_preserves after_palette_preserves B init])
qed

lemma bound_after:
  assumes C: "preserves (\<lambda>s. colors s = Some palette) (exec C)"
    and r: "exec (A @ color_scheme @ C) env s0 = Inr s"
  shows "colors s = Some palette"
proof -
  from r obtain sA where sA: "exec A env s0 = Inr sA"
    and rest: "exec (color_scheme @ C) env sA = Inr s"
    by (auto simp: exec_append split: sum.splits)
  from rest have "exec C env (sA\<lparr>colors := Some palette\<rparr>) = Inr s"
    by (simp add: color_scheme_def)
  moreover have "colors (final (exec C env (sA\<lparr>colors := Some palette\<rparr>))) = Some palette"
    using C by (simp add: preserves_def)
  ultimately show ?thesis by simp
qed

lemma palette_bound:
  assumes "7 \<le> k" and "exec (take k script) env init = Inr s"
  shows "colors s = Some palette"
proof -
  from assms have "exec (take k (create_figure @ title) @ color_scheme @ take (k - 7) after_palette)
                     env init = Inr s"
    by (simp add: take_script take_color_scheme)
  with after_palette_preserves show ?thesis
    by (rule bound_after)
qed

text \<open>
  C9, as the code has it: \<open>colors\<close> is bound by one assignment, the seventh statement, to a
  dict of seven distinct category names. At every point of every run it is either not bound
  yet, and then no box has been drawn, or bound to that dict, unchanged; it is bound to that
  dict whenever the first \<open>k \<ge> 7\<close> statements have completed, and so at the end of a run
  that completes.
\<close>

theorem palette_defined_once_never_mutated:
  "(unbound_no_box (final (exec (take k script) env init)) \<or>
    colors (final (exec (take k script) env init)) = Some palette) \<and>
   (7 \<le> k \<and> exec (take k script) env init = Inr s \<longrightarrow> colors s = Some palette) \<and>
   (run env = Inr s' \<longrightarrow> colors s' = Some palette) \<and>
   length palette = 7 \<and> distinct (map fst palette)"
proof -
  have a: "unbound_no_box (final (exec (take k script) env init)) \<or>
           colors (final (exec (take k script) env init)) = Some palette"
    by (rule palette_invariant)
  have b: "colors s = Some palette" if "7 \<le> k" and "exec (take k script) env init = Inr s"
    using that by (rule palette_bound)
  have c: "colors s' = Some palette" if "run env = Inr s'"
  proof -
    from that have "run (\<lambda>_ _. None) = Inr s'" by (rule faithful_run(2))
    then show ?thesis by (auto simp: run_ok before_save_state_def)
  qed
  have d: "length palette = 7 \<and> distinct (map fst palette)"
    by (simp add: palette_def)
  from a b c d show ?thesis by blast
qed

theorem palette_defined_once_never_mutated_witness:
  "colors (final (run never_fails)) = Some palette"
proof -
  have h: "run never_fails = Inr (final (run never_fails))"
    by (simp add: never_fails_eq run_ok)
  from palette_defined_once_never_mutated [of 7 never_fails _ "final (run never_fails)"] h
  show ?thesis by blast
qed

text \<open>
  C9 as stated fails: after the first six statements, the two title annotations have been
  drawn and \<open>colors\<close> is not bound yet.
\<close>

theorem palette_before_any_drawing_counterexample:
  "colors (final (exec (take 6 script) never_fails init)) = None \<and>
   filter is_Text (trace (final (exec (take 6 script) never_fails init))) =
     [Text 50 118 ''AI Governance Navigator - Directory Structure'' 24
        [(''fontweight'', ''bold''), (''ha'', ''center'')],
      Text 50 115 ''Complete Project Architecture Overview'' 14
        [(''ha'', ''center''), (''color'', ''gray'')]]"
proof -
  have "take 6 script = create_figure @ title"
    by (subst script_parts) (simp add: create_figure_def title_def)
  then show ?thesis
    by (simp add: create_figure_def title_def never_fails_eq issue_ok init_def)
qed

lemma in_range_between: "in_range l a \<Longrightarrow> in_range l b \<Longrightarrow> a \<le> v \<Longrightarrow> v \<le> b \<Longrightarrow> in_range l v"
  by (auto simp: in_range_def)

lemma line_fraction:
  fixes h :: rat
  assumes "0 \<le> h" and "i < n"
  shows "0 \<le> (of_nat i + 1) * (h / of_nat (n + 1))"
    and "(of_nat i + 1) * (h / of_nat (n + 1)) \<le> h"
proof -
  from assms(1) show "0 \<le> (of_nat i + 1) * (h / of_nat (n + 1))"
    by simp
  have "(of_nat i + 1 :: rat) \<le> of_nat (n + 1)"
    using assms(2) by simp
  then have "(of_nat i + 1) * h \<le> of_nat (n + 1) * h"
    using assms(1) by (rule mult_right_mono)
  then have "(of_nat i + 1) * h / of_nat (n + 1) \<le> h"
    by (simp add: pos_divide_le_eq mult.commute)
  then show "(of_nat i + 1) * (h / of_nat (n + 1)) \<le> h"
    by simp
qed

lemma box_in_canvas:
  assumes "0 \<le> w" and "0 \<le> h"
    and "in_range xl x" and "in_range xl (x + w)" and "in_range yl y" and "in_range yl (y + h)"
  shows "filter (outside xl yl) (draw_box_calls x y w h t c fs st) = []"
proof -
  let ?ls = "str_split (CHR 0x0A) t"
  let ?lh = "h / of_nat (length ?ls + 1)"
  have box: "in_canvas xl yl (Add_patch (box_of x y w h c st))"
    using assms by (simp add: box_of_def)
  have line: "in_canvas xl yl (line_text x y w h ?lh fs il)" if "il \<in> set (enumerate 0 ?ls)" for il
  proof -
    obtain i l where il: "il = (i, l)" by (cases il)
    from that have i: "fst il < length ?ls"
      by (simp add: il in_set_enumerate_eq)
    have x: "in_range xl (x + w / 2)"
      using assms(3,4) by (rule in_range_between) (use assms(1) in simp_all)
    have y: "in_range yl (y + h - (of_nat (fst il) + 1) * ?lh)"
      using assms(5,6) by (rule in_range_between) (use line_fraction [OF assms(2) i] in simp_all)
    from x y show ?thesis
      by (simp add: line_text_def)
  qed
  from box line show ?thesis
    by (auto simp: draw_box_calls_def filter_empty_conv outside_def)
qed

lemma features_box_calls:
  "draw_box_calls 5 (- 6) 88 6 '''' ''#F5A623'' 11 ''round'' =
     [Add_patch (FancyBboxPatch (5, - 6) 88 6 ''round,pad=0.1'' ''#F5A623'' ''black'' 0.3 1.5),
      Text 49 (- 3) '''' 11 [(''fontweight'', ''bold''), (''ha'', ''center''), (''va'', ''center'')]]"
  by (simp add: draw_box_calls_def box_of_def line_text_def enumerate_simps)

lemma limits_draw_box_calls:
  "xlim (draw_box_calls x y w h t c fs st @ cs) = xlim cs"
  "ylim (draw_box_calls x y w h t c fs st @ cs) = ylim cs"
proof -
  have x: "xlim (map (line_text x y w h lh fs) ils @ cs) = xlim cs" for lh ils
    by (induction ils) (simp_all add: line_text_def)
  have y: "ylim (map (line_text x y w h lh fs) ils @ cs) = ylim cs" for lh ils
    by (induction ils) (simp_all add: line_text_def)
  show "xlim (draw_box_calls x y w h t c fs st @ cs) = xlim cs"
    by (simp add: draw_box_calls_def x)
  show "ylim (draw_box_calls x y w h t c fs st @ cs) = ylim cs"
    by (simp add: draw_box_calls_def y)
qed

text \<open>
  C1 fails on the code: in the run in which nothing fails the extent is \<open>[0, 100] \<times> [0, 120]\<close>,
  and exactly seven calls leave it, all of the key-features section, whose box is drawn at
  \<open>features_y = tech_y - 8 = - 6\<close>: the box, its empty label, and the five annotations placed
  relative to it. Every other box, annotation and connector line lies in_range the extent.
\<close>

theorem features_box_below_canvas:
  "xlim (trace (final (run never_fails))) = Some (0, 100) \<and>
   ylim (trace (final (run never_fails))) = Some (0, 120) \<and>
   filter (outside (0, 100) (0, 120)) (trace (final (run never_fails))) =
     [Add_patch (FancyBboxPatch (5, - 6) 88 6 ''round,pad=0.1'' ''#F5A623'' ''black'' 0.3 1.5),
      Text 49 (- 3) '''' 11 [(''fontweight'', ''bold''), (''ha'', ''center''), (''va'', ''center'')],
      Text 49 (- 1.5) (direct_hit @ '' Key Features'') 12
        [(''fontweight'', ''bold''), (''ha'', ''center'')],
      Text 25 (- 4) (check_mark @ '' EU AI Act Compliance Engine'') 9 [],
      Text 25 (- 5.5) (check_mark @ '' Real-time LLM/Prompt Monitoring'') 9 [],
      Text 68 (- 4) (check_mark @ '' Multi-Agent Swarm Architecture'') 9 [],
      Text 68 (- 5.5) (check_mark @ '' Automated Risk Classification'') 9 []]"
proof -
  have t: "trace (final (run never_fails)) = before_save_calls @ after_save_calls"
    by (simp add: never_fails_eq run_ok)
  have x: "xlim (before_save_calls @ after_save_calls) = Some (0, 100)"
    by (simp add: before_save_calls_def after_save_calls_def limits_draw_box_calls)
  have y: "ylim (before_save_calls @ after_save_calls) = Some (0, 120)"
    by (simp add: before_save_calls_def after_save_calls_def limits_draw_box_calls)
  have f: "filter (outside (0, 100) (0, 120)) (before_save_calls @ after_save_calls) =
     [Add_patch (FancyBboxPatch (5, - 6) 88 6 ''round,pad=0.1'' ''#F5A623'' ''black'' 0.3 1.5),
      Text 49 (- 3) '''' 11 [(''fontweight'', ''bold''), (''ha'', ''center''), (''va'', ''center'')],
      Text 49 (- 1.5) (direct_hit @ '' Key Features'') 12
        [(''fontweight'', ''bold''), (''ha'', ''center'')],
      Text 25 (- 4) (check_mark @ '' EU AI Act Compliance Engine'') 9 [],
      Text 25 (- 5.5) (check_mark @ '' Real-time LLM/Prompt Monitoring'') 9 [],
      Text 68 (- 4) (check_mark @ '' Multi-Agent Swarm Architecture'') 9 [],
      Text 68 (- 5.5) (check_mark @ '' Automated Risk Classification'') 9 []]"
    unfolding before_save_calls_def after_save_calls_def features_box_calls
    by (simp add: box_in_canvas in_range_def outside_def)
  from x y f show ?thesis
    by (simp only: t) 
qed

end
